theory Spec2Isabelle
  imports Complex_Main "HOL-Library.Word"
begin

section \<open>Strings\<close>

text \<open>
  A JavaScript string is a sequence of UTF-16 code units. Every character the calculator
  handles is a single code unit, including the Greek letter pi (U+03C0), so \<open>length\<close>,
  \<open>slice\<close> and the regular-expression replacements of the source all count list elements.
  \<open>js\<close> embeds an ASCII literal.
\<close>

type_synonym codeunit = "16 word"
type_synonym ustring = "codeunit list"

definition js :: "string \<Rightarrow> ustring" where
  "js s = map of_char s"

definition pi_unit :: codeunit where
  "pi_unit = 0x03C0"

definition starts_with :: "ustring \<Rightarrow> ustring \<Rightarrow> bool" where
  "starts_with s pat = (take (length pat) s = pat)"

text \<open>
  \<open>s.replace(/pat/g, rep)\<close> for a pattern that matches one fixed, non-empty string and a
  replacement without \<open>$\<close>: scan from the left, replace each match and continue after it.
\<close>

fun replace_all :: "ustring \<Rightarrow> ustring \<Rightarrow> ustring \<Rightarrow> ustring" where
  "replace_all pat rep [] = []"
| "replace_all pat rep (c # cs) =
     (if pat \<noteq> [] \<and> starts_with (c # cs) pat
      then rep @ replace_all pat rep (drop (length pat - 1) cs)
      else c # replace_all pat rep cs)"

section \<open>The expression rewriter (store.ts, prepareInputForCalculation)\<close>

datatype CalculatorMode = DEG | RAD | GRAD

text \<open>
  The ten replacements of the source, innermost first. The template literal of the three
  trigonometric replacements is \<open>Math.sin(\<close>, then the scale text in DEG mode and nothing
  otherwise, then a closing parenthesis.
\<close>

definition prepareInputForCalculation :: "ustring \<Rightarrow> CalculatorMode \<Rightarrow> ustring" where
  "prepareInputForCalculation inp m =
     (let scale = (if m = DEG then js ''* Math.PI / 180'' else []) in
      replace_all (js ''abs('') (js ''Math.abs('')
       (replace_all (js ''sqrt('') (js ''Math.sqrt('')
        (replace_all (js ''ln('') (js ''Math.log('')
         (replace_all (js ''log('') (js ''Math.log10('')
          (replace_all (js ''tan('') (js ''Math.tan('' @ scale @ js '')'')
           (replace_all (js ''cos('') (js ''Math.cos('' @ scale @ js '')'')
            (replace_all (js ''sin('') (js ''Math.sin('' @ scale @ js '')'')
             (replace_all (js ''e'') (js ''Math.E'')
              (replace_all [pi_unit] (js ''Math.PI'')
               (replace_all (js ''^'') (js ''**'') inp))))))))))"

section \<open>Numbers\<close>

text \<open>
  A JavaScript number is an IEEE 754 double: a rational with 53 significant bits, an infinity
  or NaN. Finite values are kept as exact rationals and every arithmetic result is rounded
  by \<open>to_double\<close> (round to nearest, ties to even). Negative zero is identified with zero;
  the two print alike under \<open>Number.prototype.toString\<close>.
\<close>

datatype number = Finite rat | PosInfinity | NegInfinity | NaN

fun negate :: "number \<Rightarrow> number" where
  "negate (Finite x) = Finite (- x)"
| "negate PosInfinity = NegInfinity"
| "negate NegInfinity = PosInfinity"
| "negate NaN = NaN"

definition pow_int :: "rat \<Rightarrow> int \<Rightarrow> rat" where
  "pow_int b e = (if 0 \<le> e then b ^ nat e else 1 / b ^ nat (- e))"

text \<open>The number of base-\<open>b\<close> digits of a non-negative integer.\<close>

function digit_count :: "int \<Rightarrow> int \<Rightarrow> int" where
  "digit_count b n = (if b < 2 \<or> n < b then 1 else 1 + digit_count b (n div b))"
  by pat_completeness auto
termination
proof (relation "measure (\<lambda>(b, n). nat n)")
  show "wf (measure (\<lambda>(b, n). nat n))"
    by simp
next
  fix b n :: int
  assume "\<not> (b < 2 \<or> n < b)"
  then have b: "2 \<le> b" and n: "b \<le> n"
    by simp_all
  then have "n div b < n"
    by (simp add: int_div_less_self)
  moreover have "0 < n"
    using b n by simp
  ultimately show "((b, n div b), (b, n)) \<in> measure (\<lambda>(b, n). nat n)"
    by simp
qed

declare digit_count.simps [simp del]

text \<open>For \<open>x > 0\<close>, the exponent \<open>e\<close> with \<open>b ^ e \<le> x < b ^ (e + 1)\<close>.\<close>

definition ilog :: "int \<Rightarrow> rat \<Rightarrow> int" where
  "ilog b x =
     (if 1 \<le> x then digit_count b \<lfloor>x\<rfloor> - 1
      else - digit_count b (\<lceil>1 / x\<rceil> - 1))"

definition round_half_even :: "rat \<Rightarrow> int" where
  "round_half_even q =
     (let f = \<lfloor>q\<rfloor>; d = q - of_int f
      in if d < 1 / 2 then f else if 1 / 2 < d then f + 1 else if even f then f else f + 1)"

definition to_double_pos :: "rat \<Rightarrow> number" where
  "to_double_pos x =
     (let e = max (ilog 2 x) (- 1022);
          ulp = pow_int 2 (e - 52);
          r = of_int (round_half_even (x / ulp)) * ulp
      in if 2 ^ 1024 \<le> r then PosInfinity else Finite r)"

definition to_double :: "rat \<Rightarrow> number" where
  "to_double x =
     (if x = 0 then Finite 0
      else if 0 < x then to_double_pos x
      else negate (to_double_pos (- x)))"

fun number_add :: "number \<Rightarrow> number \<Rightarrow> number" where
  "number_add NaN _ = NaN"
| "number_add _ NaN = NaN"
| "number_add PosInfinity NegInfinity = NaN"
| "number_add NegInfinity PosInfinity = NaN"
| "number_add PosInfinity _ = PosInfinity"
| "number_add _ PosInfinity = PosInfinity"
| "number_add NegInfinity _ = NegInfinity"
| "number_add _ NegInfinity = NegInfinity"
| "number_add (Finite a) (Finite b) = to_double (a + b)"

subsection \<open>Number to string\<close>

definition digit_unit :: "int \<Rightarrow> codeunit" where
  "digit_unit d = of_int (48 + d)"

function decimal_digits :: "int \<Rightarrow> ustring" where
  "decimal_digits n =
     (if n < 10 then [digit_unit n] else decimal_digits (n div 10) @ [digit_unit (n mod 10)])"
  by pat_completeness auto
termination
  by (relation "measure nat") auto

declare decimal_digits.simps [simp del]

function zeros :: "int \<Rightarrow> ustring" where
  "zeros n = (if n \<le> 0 then [] else digit_unit 0 # zeros (n - 1))"
  by pat_completeness auto
termination
  by (relation "measure nat") auto

declare zeros.simps [simp del]

definition nearest_even :: "rat \<Rightarrow> int" where
  "nearest_even y =
     (let lo = \<lfloor>y\<rfloor>; hi = \<lceil>y\<rceil>
      in if y - of_int lo < of_int hi - y then lo
         else if of_int hi - y < y - of_int lo then hi
         else if even lo then lo else hi)"

definition normalise_digits :: "int \<Rightarrow> int \<Rightarrow> int \<Rightarrow> int \<times> int" where
  "normalise_digits k s n = (if s = 10 ^ nat k then (10 ^ nat (k - 1), n + 1) else (s, n))"

text \<open>
  \<open>Number::toString\<close> of the standard asks for integers \<open>n\<close>, \<open>k\<close>, \<open>s\<close> with \<open>k\<close> digits
  in \<open>s\<close>, such that \<open>s * 10 ^ (n - k)\<close> rounds to \<open>x\<close>, \<open>k\<close> as small as possible and, among
  those, \<open>s\<close> closest to \<open>x\<close>. Only the two \<open>k\<close>-digit neighbours of \<open>x\<close> can qualify.
  Seventeen digits always do for a double.
\<close>

definition shortest_candidate :: "rat \<Rightarrow> int \<Rightarrow> (int \<times> int) option" where
  "shortest_candidate x k =
     (let n = ilog 10 x + 1;
          scale = pow_int 10 (n - k);
          y = x / scale;
          lo = \<lfloor>y\<rfloor>;
          hi = \<lceil>y\<rceil>;
          ok_lo = (to_double (of_int lo * scale) = Finite x);
          ok_hi = (to_double (of_int hi * scale) = Finite x)
      in if ok_lo \<and> ok_hi then Some (normalise_digits k (nearest_even y) n)
         else if ok_lo then Some (normalise_digits k lo n)
         else if ok_hi then Some (normalise_digits k hi n)
         else None)"

function shortest_from :: "rat \<Rightarrow> int \<Rightarrow> int \<times> int" where
  "shortest_from x k =
     (if 17 \<le> k
      then (let n = ilog 10 x + 1
            in normalise_digits k (nearest_even (x / pow_int 10 (n - k))) n)
      else (case shortest_candidate x k of
              Some r \<Rightarrow> r
            | None \<Rightarrow> shortest_from x (k + 1)))"
  by pat_completeness auto
termination
  by (relation "measure (\<lambda>(x, k). nat (17 - k))") auto

declare shortest_from.simps [simp del]

definition exponent_text :: "int \<Rightarrow> ustring" where
  "exponent_text e = js ''e'' @ (if e < 0 then js ''-'' else js ''+'') @ decimal_digits \<bar>e\<bar>"

definition positive_toString :: "rat \<Rightarrow> ustring" where
  "positive_toString x =
     (let (s, n) = shortest_from x 1;
          ds = decimal_digits s;
          k = int (length ds)
      in if k \<le> n \<and> n \<le> 21 then ds @ zeros (n - k)
         else if 0 < n \<and> n \<le> 21 then take (nat n) ds @ js ''.'' @ drop (nat n) ds
         else if - 6 < n \<and> n \<le> 0 then js ''0.'' @ zeros (- n) @ ds
         else if k = 1 then ds @ exponent_text (n - 1)
         else take 1 ds @ js ''.'' @ drop 1 ds @ exponent_text (n - 1))"

fun number_toString :: "number \<Rightarrow> ustring" where
  "number_toString NaN = js ''NaN''"
| "number_toString PosInfinity = js ''Infinity''"
| "number_toString NegInfinity = js ''-Infinity''"
| "number_toString (Finite x) =
     (if x = 0 then js ''0''
      else if x < 0 then js ''-'' @ positive_toString (- x)
      else positive_toString x)"

text \<open>
  \<open>toExponential\<close> and \<open>toPrecision\<close> round the exact value to \<open>p\<close> significant digits,
  ties upwards: \<open>scaled_digits x p = (n, e)\<close> with \<open>10 ^ (p - 1) \<le> n < 10 ^ p\<close> and
  \<open>n * 10 ^ (e - p + 1)\<close> nearest to \<open>x\<close>.
\<close>

definition scaled_digits :: "rat \<Rightarrow> int \<Rightarrow> int \<times> int" where
  "scaled_digits x p =
     (let e = ilog 10 x;
          n = \<lfloor>x / pow_int 10 (e - p + 1) + 1 / 2\<rfloor>
      in if n = 10 ^ nat p then (10 ^ nat (p - 1), e + 1) else (n, e))"

fun toExponential :: "int \<Rightarrow> number \<Rightarrow> ustring" where
  "toExponential f NaN = js ''NaN''"
| "toExponential f PosInfinity = js ''Infinity''"
| "toExponential f NegInfinity = js ''-Infinity''"
| "toExponential f (Finite x) =
     (let s = (if x < 0 then js ''-'' else []);
          (n, e) = (if x = 0 then (0, 0) else scaled_digits \<bar>x\<bar> (f + 1));
          m = (if x = 0 then zeros (f + 1) else decimal_digits n);
          m' = (if f \<noteq> 0 then take 1 m @ js ''.'' @ drop 1 m else m)
      in s @ m' @ exponent_text e)"

fun toPrecision :: "int \<Rightarrow> number \<Rightarrow> ustring" where
  "toPrecision p NaN = js ''NaN''"
| "toPrecision p PosInfinity = js ''Infinity''"
| "toPrecision p NegInfinity = js ''-Infinity''"
| "toPrecision p (Finite x) =
     (let s = (if x < 0 then js ''-'' else []);
          (n, e) = (if x = 0 then (0, 0) else scaled_digits \<bar>x\<bar> p);
          m = (if x = 0 then zeros p else decimal_digits n)
      in if e < - 6 \<or> p \<le> e
         then s @ (if p \<noteq> 1 then take 1 m @ js ''.'' @ drop 1 m else m) @ exponent_text e
         else if e = p - 1 then s @ m
         else if 0 \<le> e then s @ take (nat (e + 1)) m @ js ''.'' @ drop (nat (e + 1)) m
         else s @ js ''0.'' @ zeros (- (e + 1)) @ m)"

subsection \<open>String to number\<close>

definition is_digit :: "codeunit \<Rightarrow> bool" where
  "is_digit c = (48 \<le> c \<and> c \<le> 57)"

definition digits_value :: "ustring \<Rightarrow> int" where
  "digits_value ds = foldl (\<lambda>a c. 10 * a + (uint c - 48)) 0 ds"

text \<open>White space and line terminators, as \<open>parseFloat\<close> and \<open>Number\<close> skip them.\<close>

definition is_whitespace :: "codeunit \<Rightarrow> bool" where
  "is_whitespace c =
     (c \<in> set [0x09, 0x0A, 0x0B, 0x0C, 0x0D, 0x20, 0xA0, 0x1680, 0x2028, 0x2029, 0x202F,
                0x205F, 0x3000, 0xFEFF]
      \<or> (0x2000 \<le> c \<and> c \<le> 0x200A))"

text \<open>An optional exponent part: its value and the text after it.\<close>

definition scan_exponent :: "ustring \<Rightarrow> int \<times> ustring" where
  "scan_exponent s =
     (case s of
        [] \<Rightarrow> (0, s)
      | c # r \<Rightarrow>
          if c = of_char CHR ''e'' \<or> c = of_char CHR ''E''
          then (let neg = (r \<noteq> [] \<and> hd r = of_char CHR ''-'');
                    r' = (if r \<noteq> [] \<and> (hd r = of_char CHR ''-'' \<or> hd r = of_char CHR ''+'')
                          then tl r else r);
                    ds = takeWhile is_digit r'
                in if ds = [] then (0, s)
                   else (if neg then - digits_value ds else digits_value ds,
                         dropWhile is_digit r'))
          else (0, s))"

text \<open>
  The longest prefix that is an unsigned decimal literal (digits, an optional fraction, an
  optional exponent), with its exact value and the text after it.
\<close>

definition scan_decimal :: "ustring \<Rightarrow> (rat \<times> ustring) option" where
  "scan_decimal s =
     (let ip = takeWhile is_digit s;
          r1 = dropWhile is_digit s;
          has_dot = (r1 \<noteq> [] \<and> hd r1 = of_char CHR ''.'');
          fp = (if has_dot then takeWhile is_digit (tl r1) else []);
          r2 = (if has_dot then dropWhile is_digit (tl r1) else r1)
      in if ip = [] \<and> fp = [] then None
         else (let (e, r3) = scan_exponent r2
               in Some ((of_int (digits_value ip)
                         + of_int (digits_value fp) / 10 ^ length fp) * pow_int 10 e, r3)))"

definition parseFloat :: "ustring \<Rightarrow> number" where
  "parseFloat s =
     (let t = dropWhile is_whitespace s;
          neg = (t \<noteq> [] \<and> hd t = of_char CHR ''-'');
          u = (if t \<noteq> [] \<and> (hd t = of_char CHR ''-'' \<or> hd t = of_char CHR ''+'')
               then tl t else t)
      in if starts_with u (js ''Infinity'') then (if neg then NegInfinity else PosInfinity)
         else (case scan_decimal u of
                 None \<Rightarrow> NaN
               | Some (v, _) \<Rightarrow> to_double (if neg then - v else v)))"

definition radix_literal :: "ustring \<Rightarrow> bool" where
  "radix_literal t =
     (let body = drop 2 t;
          hex = (\<lambda>c. is_digit c \<or> (0x41 \<le> c \<and> c \<le> 0x46) \<or> (0x61 \<le> c \<and> c \<le> 0x66));
          oct = (\<lambda>c. 48 \<le> c \<and> c \<le> 55);
          bin = (\<lambda>c. c = 48 \<or> c = 49)
      in body \<noteq> [] \<and>
         ((take 2 t \<in> set [js ''0x'', js ''0X''] \<and> list_all hex body)
          \<or> (take 2 t \<in> set [js ''0o'', js ''0O''] \<and> list_all oct body)
          \<or> (take 2 t \<in> set [js ''0b'', js ''0B''] \<and> list_all bin body)))"

text \<open>
  \<open>isNaN(Number(value))\<close> for a string: the conversion is a number unless the text, with
  white space trimmed at both ends, is neither empty nor a numeric literal.
\<close>

definition isNaN_Number :: "ustring \<Rightarrow> bool" where
  "isNaN_Number s =
     (let t = rev (dropWhile is_whitespace (rev (dropWhile is_whitespace s)));
          u = (if t \<noteq> [] \<and> (hd t = of_char CHR ''-'' \<or> hd t = of_char CHR ''+'')
               then tl t else t)
      in \<not> (t = [] \<or> radix_literal t \<or> u = js ''Infinity''
             \<or> (case scan_decimal u of Some (_, r) \<Rightarrow> r = [] | None \<Rightarrow> False)))"

section \<open>The formatter (utils.ts, formatNumber)\<close>

datatype js_value = Str ustring | Num number

text \<open>\<open>s.replace(/\.?0+$/, '')\<close>: a final run of zeros goes, with a dot in front of it.\<close>

definition strip_trailing_zeros :: "ustring \<Rightarrow> ustring" where
  "strip_trailing_zeros s =
     (let z = length (takeWhile (\<lambda>c. c = digit_unit 0) (rev s));
          body = take (length s - z) s
      in if z = 0 then s
         else if body \<noteq> [] \<and> last body = of_char CHR ''.'' then butlast body
         else body)"

definition isInteger :: "rat \<Rightarrow> bool" where
  "isInteger x = (of_int \<lfloor>x\<rfloor> = x)"

definition infinity_sign :: codeunit where
  "infinity_sign = 0x221E"

text \<open>The literal \<open>1e-7\<close> of the source is the double nearest to one ten-millionth.\<close>

definition lit_1e_7 :: rat where
  "lit_1e_7 = (case to_double (1 / 10 ^ 7) of Finite r \<Rightarrow> r | _ \<Rightarrow> 0)"

fun formatNumber :: "js_value \<Rightarrow> ustring" where
  "formatNumber (Str s) = s"
| "formatNumber (Num PosInfinity) = [infinity_sign]"
| "formatNumber (Num NegInfinity) = js ''-'' @ [infinity_sign]"
| "formatNumber (Num NaN) = js ''Error''"
| "formatNumber (Num (Finite x)) =
     (let str = number_toString (Finite x)
      in if isInteger x \<or> length str < 15 then str
         else if 10 ^ 10 < \<bar>x\<bar> \<or> (\<bar>x\<bar> < lit_1e_7 \<and> x \<noteq> 0) then toExponential 10 (Finite x)
         else strip_trailing_zeros (toPrecision 10 (Finite x)))"

definition isOperator :: "ustring \<Rightarrow> bool" where
  "isOperator value =
     (value \<in> set [js ''+'', js ''-'', js ''*'', js ''/'', js ''^'', js ''%''])"

section \<open>The calculator store (store.ts)\<close>

record HistoryEntry =
  entry_input :: ustring
  entry_result :: ustring
  entry_latex :: ustring

text \<open>
  The field \<open>memory\<close> holds the own properties of the object \<open>memory\<close>; reading
  \<open>memory[key]\<close> is \<open>memory_lookup\<close> below, which also finds what the object inherits.
\<close>

record CalculatorState =
  display :: ustring
  input :: ustring
  result :: ustring
  latex :: ustring
  memory :: "ustring \<rightharpoonup> ustring"
  history :: "HistoryEntry list"
  mode :: CalculatorMode
  isShiftActive :: bool
  isInverseActive :: bool
  isHyperbolicActive :: bool
  precision :: number
  error :: "ustring option"

definition initial_state :: CalculatorState where
  "initial_state =
     \<lparr>display = js ''0'', input = [], result = [], latex = [], memory = Map.empty,
      history = [], mode = DEG, isShiftActive = False, isInverseActive = False,
      isHyperbolicActive = False, precision = Finite 10, error = None\<rparr>"

text \<open>A string is truthy when it is not empty; an absent argument is \<open>None\<close>.\<close>

definition appendToInput :: "ustring \<Rightarrow> CalculatorState \<Rightarrow> CalculatorState" where
  "appendToInput value st =
     (if result st \<noteq> [] \<and> \<not> isNaN_Number value \<and> \<not> isOperator value
      then st\<lparr>input := value, display := value, result := []\<rparr>
      else if result st \<noteq> [] \<and> isOperator value
      then st\<lparr>input := result st @ value, display := result st @ value, result := []\<rparr>
      else st\<lparr>input := input st @ value, display := input st @ value, error := None\<rparr>)"

definition clearInput :: "CalculatorState \<Rightarrow> CalculatorState" where
  "clearInput st = st\<lparr>input := [], display := js ''0'', error := None\<rparr>"

definition clearAll :: "CalculatorState \<Rightarrow> CalculatorState" where
  "clearAll st = st\<lparr>input := [], display := js ''0'', result := [], latex := [], error := None\<rparr>"

definition generateLatex :: "ustring \<Rightarrow> ustring \<Rightarrow> ustring" where
  "generateLatex inp res = inp @ js '' = '' @ res"

text \<open>
  The outcome of an expression that may throw. In \<open>calculate\<close> the parameter \<open>run\<close> stands
  for \<open>new Decimal(eval(s)).toString()\<close>: the runtime's evaluator and the decimal library
  are outside the store, and the \<open>try\<close> block only sees a string or an exception.
\<close>

datatype 'a completion = Normal 'a | Throw

type_synonym evaluator = "ustring \<Rightarrow> ustring completion"

definition calculate :: "evaluator \<Rightarrow> CalculatorState \<Rightarrow> CalculatorState" where
  "calculate run st =
     (if input st = [] then st
      else (case run (prepareInputForCalculation (input st) (mode st)) of
              Throw \<Rightarrow> st\<lparr>error := Some (js ''Error in calculation'')\<rparr>
            | Normal r \<Rightarrow>
                (let formattedResult = formatNumber (Str r)
                 in st\<lparr>result := formattedResult,
                       display := formattedResult,
                       latex := generateLatex (input st) formattedResult,
                       history :=
                         take 100
                           (\<lparr>entry_input = input st, entry_result = formattedResult,
                             entry_latex = generateLatex (input st) formattedResult\<rparr>
                            # history st),
                       error := None\<rparr>)))"

definition setMode :: "CalculatorMode \<Rightarrow> CalculatorState \<Rightarrow> CalculatorState" where
  "setMode m st = st\<lparr>mode := m\<rparr>"

definition toggleShift :: "CalculatorState \<Rightarrow> CalculatorState" where
  "toggleShift st = st\<lparr>isShiftActive := \<not> isShiftActive st\<rparr>"

definition toggleInverse :: "CalculatorState \<Rightarrow> CalculatorState" where
  "toggleInverse st = st\<lparr>isInverseActive := \<not> isInverseActive st\<rparr>"

definition toggleHyperbolic :: "CalculatorState \<Rightarrow> CalculatorState" where
  "toggleHyperbolic st = st\<lparr>isHyperbolicActive := \<not> isHyperbolicActive st\<rparr>"

text \<open>\<open>value || result || display || input\<close>: the first operand that is not empty, else the last.\<close>

definition valueToStore :: "ustring option \<Rightarrow> CalculatorState \<Rightarrow> ustring" where
  "valueToStore value st =
     (case value of
        Some v \<Rightarrow> if v \<noteq> [] then v
                  else if result st \<noteq> [] then result st
                  else if display st \<noteq> [] then display st
                  else input st
      | None \<Rightarrow> if result st \<noteq> [] then result st
                else if display st \<noteq> [] then display st
                else input st)"

text \<open>
  \<open>memory\<close> is a plain object, so \<open>memory[key]\<close> is the own property \<open>key\<close> if there is
  one, and otherwise the member of that name inherited from \<open>Object.prototype\<close>, if any.
  The store only tests such a value for truth, passes it to \<open>parseFloat\<close> and appends it to
  a string, so the lookup yields its text: \<open>[object Object]\<close> for the prototype object
  behind \<open>__proto__\<close>, and the source text of a built-in function, which never is empty, in
  the form \<open>function name() { [native code] }\<close> (engines differ in its white space only).
\<close>

definition native_function_text :: "ustring \<Rightarrow> ustring" where
  "native_function_text name = js ''function '' @ name @ js ''() { [native code] }''"

definition object_prototype_member :: "ustring \<Rightarrow> ustring option" where
  "object_prototype_member key =
     (if key = js ''constructor'' then Some (native_function_text (js ''Object''))
      else if key = js ''__proto__'' then Some (js ''[object Object]'')
      else if key \<in> set [js ''toString'', js ''toLocaleString'', js ''valueOf'',
                          js ''hasOwnProperty'', js ''isPrototypeOf'',
                          js ''propertyIsEnumerable'', js ''__defineGetter__'',
                          js ''__defineSetter__'', js ''__lookupGetter__'',
                          js ''__lookupSetter__'']
      then Some (native_function_text key)
      else None)"

definition memory_lookup :: "(ustring \<rightharpoonup> ustring) \<Rightarrow> ustring \<Rightarrow> ustring option" where
  "memory_lookup m key =
     (case m key of Some v \<Rightarrow> Some v | None \<Rightarrow> object_prototype_member key)"

definition storeInMemory ::
  "ustring \<Rightarrow> ustring option \<Rightarrow> CalculatorState \<Rightarrow> CalculatorState" where
  "storeInMemory key value st =
     (let v = valueToStore value st
      in if v \<noteq> []
         then (case memory_lookup (memory st) key of
                 Some stored \<Rightarrow>
                   if (value = None \<or> value = Some []) \<and> stored \<noteq> []
                   then (let currentValue = parseFloat stored;
                             newValue = number_add currentValue (parseFloat v)
                         in st\<lparr>memory := (memory st)(key \<mapsto> number_toString newValue)\<rparr>)
                   else st\<lparr>memory := (memory st)(key \<mapsto> v)\<rparr>
               | None \<Rightarrow> st\<lparr>memory := (memory st)(key \<mapsto> v)\<rparr>)
         else st)"

definition recallFromMemory :: "ustring \<Rightarrow> CalculatorState \<Rightarrow> CalculatorState" where
  "recallFromMemory key st =
     (case memory_lookup (memory st) key of
        None \<Rightarrow> st
      | Some value \<Rightarrow>
          if value \<noteq> []
          then (if result st \<noteq> []
                then st\<lparr>input := value, display := value, result := []\<rparr>
                else st\<lparr>input := input st @ value, display := input st @ value\<rparr>)
          else st)"

definition clearMemory :: "ustring option \<Rightarrow> CalculatorState \<Rightarrow> CalculatorState" where
  "clearMemory key st =
     (case key of
        Some k \<Rightarrow> if k \<noteq> [] then st\<lparr>memory := (memory st)(k := None)\<rparr>
                  else st\<lparr>memory := Map.empty\<rparr>
      | None \<Rightarrow> st\<lparr>memory := Map.empty\<rparr>)"

definition clearHistory :: "CalculatorState \<Rightarrow> CalculatorState" where
  "clearHistory st = st\<lparr>history := []\<rparr>"

definition setPrecision :: "number \<Rightarrow> CalculatorState \<Rightarrow> CalculatorState" where
  "setPrecision p st = st\<lparr>precision := p\<rparr>"

definition backspace :: "CalculatorState \<Rightarrow> CalculatorState" where
  "backspace st =
     (if input st = [] then st
      else (let newInput = butlast (input st)
            in st\<lparr>input := newInput,
                  display := (if newInput \<noteq> [] then newInput else js ''0''),
                  result := [],
                  error := None\<rparr>))"

text \<open>The fourteen actions of the store, and a session as a list of them.\<close>

datatype action =
    AppendToInput ustring
  | ClearInput
  | ClearAll
  | Calculate
  | SetMode CalculatorMode
  | ToggleShift
  | ToggleInverse
  | ToggleHyperbolic
  | StoreInMemory ustring "ustring option"
  | RecallFromMemory ustring
  | ClearMemory "ustring option"
  | ClearHistory
  | SetPrecision number
  | Backspace

fun perform :: "evaluator \<Rightarrow> action \<Rightarrow> CalculatorState \<Rightarrow> CalculatorState" where
  "perform run (AppendToInput v) st = appendToInput v st"
| "perform run ClearInput st = clearInput st"
| "perform run ClearAll st = clearAll st"
| "perform run Calculate st = calculate run st"
| "perform run (SetMode m) st = setMode m st"
| "perform run ToggleShift st = toggleShift st"
| "perform run ToggleInverse st = toggleInverse st"
| "perform run ToggleHyperbolic st = toggleHyperbolic st"
| "perform run (StoreInMemory k v) st = storeInMemory k v st"
| "perform run (RecallFromMemory k) st = recallFromMemory k st"
| "perform run (ClearMemory k) st = clearMemory k st"
| "perform run ClearHistory st = clearHistory st"
| "perform run (SetPrecision p) st = setPrecision p st"
| "perform run Backspace st = backspace st"

definition session :: "evaluator \<Rightarrow> action list \<Rightarrow> CalculatorState" where
  "session run acts = foldl (\<lambda>st a. perform run a st) initial_state acts"

text \<open>
  The history ledger in the words of the specification, without the cap: an entry is
  created only by a successful calculation and put in front, and entries go only when the
  history is cleared. \<open>ledger_step\<close> is the ledger after action \<open>a\<close> in state \<open>st\<close>, and
  \<open>uncapped_ledger\<close> the ledger of a whole session.
\<close>

fun ledger_step ::
  "evaluator \<Rightarrow> action \<Rightarrow> CalculatorState \<Rightarrow> HistoryEntry list \<Rightarrow> HistoryEntry list" where
  "ledger_step run Calculate st entries =
     (if input st = [] then entries
      else (case run (prepareInputForCalculation (input st) (mode st)) of
              Throw \<Rightarrow> entries
            | Normal r \<Rightarrow>
                \<lparr>entry_input = input st, entry_result = r,
                 entry_latex = generateLatex (input st) r\<rparr> # entries))"
| "ledger_step run ClearHistory st entries = []"
| "ledger_step run a st entries = entries"

definition uncapped_ledger :: "evaluator \<Rightarrow> action list \<Rightarrow> HistoryEntry list" where
  "uncapped_ledger run acts =
     snd (foldl (\<lambda>(st, entries) a. (perform run a st, ledger_step run a st entries))
            (initial_state, []) acts)"

section \<open>The runtime's evaluator and the decimal library\<close>

text \<open>
  \<open>calculate\<close> hands the rewritten text to JavaScript's \<open>eval\<close> and the number it gets to
  \<open>decimal.js\<close>. Neither is code of the calculator. \<open>js_eval\<close> models \<open>eval\<close> on the
  arithmetic fragment of the language: decimal literals, the operators \<open>+ - * / % **\<close>,
  parentheses, the name \<open>Math\<close> with one member, and calls with at most one argument.
  Its outcome is a number, \<open>Raises\<close> when the text is no expression (a \<open>SyntaxError\<close>) or
  is empty, and \<open>Unsupported\<close> when the text or a value is outside the fragment: any other
  character or name, the value of a \<open>Math\<close> member, of a call or of \<open>**\<close>, and a zero that
  may be negative.
\<close>

datatype token =
  TNum rat | TIdent | TLParen | TRParen | TPlus | TMinus | TStar | TSlash | TPercent | TPow

definition is_letter :: "codeunit \<Rightarrow> bool" where
  "is_letter c = ((0x41 \<le> c \<and> c \<le> 0x5A) \<or> (0x61 \<le> c \<and> c \<le> 0x7A))"

definition is_ident_char :: "codeunit \<Rightarrow> bool" where
  "is_ident_char c = (is_letter c \<or> is_digit c)"

text \<open>
  A decimal literal without exponent, with the number of code units it takes. A second
  leading zero is not accepted.
\<close>

definition lex_number :: "ustring \<Rightarrow> (rat \<times> nat) option" where
  "lex_number s =
     (let ds = takeWhile is_digit s;
          r = drop (length ds) s;
          has_dot = (r \<noteq> [] \<and> hd r = of_char CHR ''.'');
          fr = (if has_dot then takeWhile is_digit (tl r) else [])
      in if 1 < length ds \<and> hd ds = of_char CHR ''0'' then None
         else Some (of_int (digits_value ds) + of_int (digits_value fr) / 10 ^ length fr,
                    length ds + (if has_dot then 1 + length fr else 0)))"

text \<open>The name \<open>Math\<close>, alone or with one member.\<close>

definition lex_math :: "ustring \<Rightarrow> nat option" where
  "lex_math s =
     (let w = takeWhile is_ident_char s;
          r = drop (length w) s;
          has_member = (r \<noteq> [] \<and> hd r = of_char CHR ''.'' \<and> tl r \<noteq> [] \<and> is_letter (hd (tl r)));
          m = (if has_member then takeWhile is_ident_char (tl r) else [])
      in if w = js ''Math'' then Some (length w + (if has_member then 1 + length m else 0))
         else None)"

definition cons_token :: "token \<Rightarrow> token list option \<Rightarrow> token list option" where
  "cons_token t r = map_option ((#) t) r"

text \<open>
  \<open>++\<close> and \<open>--\<close> are update operators and \<open>//\<close>, \<open>/*\<close> start comments; they are outside
  the fragment.
\<close>

fun tokenize :: "ustring \<Rightarrow> token list option" where
  "tokenize [] = Some []"
| "tokenize (c # cs) =
     (if c = of_char CHR '' '' then tokenize cs
      else if is_digit c then
        (case lex_number (c # cs) of
           None \<Rightarrow> None
         | Some (v, n) \<Rightarrow> cons_token (TNum v) (tokenize (drop (n - 1) cs)))
      else if is_letter c then
        (case lex_math (c # cs) of
           None \<Rightarrow> None
         | Some n \<Rightarrow> cons_token TIdent (tokenize (drop (n - 1) cs)))
      else if c = of_char CHR ''('' then cons_token TLParen (tokenize cs)
      else if c = of_char CHR '')'' then cons_token TRParen (tokenize cs)
      else if c = of_char CHR ''%'' then cons_token TPercent (tokenize cs)
      else if c = of_char CHR ''+'' then
        (if cs \<noteq> [] \<and> hd cs = of_char CHR ''+'' then None else cons_token TPlus (tokenize cs))
      else if c = of_char CHR ''-'' then
        (if cs \<noteq> [] \<and> hd cs = of_char CHR ''-'' then None else cons_token TMinus (tokenize cs))
      else if c = of_char CHR ''*'' then
        (if cs \<noteq> [] \<and> hd cs = of_char CHR ''*'' then cons_token TPow (tokenize (drop 1 cs))
         else cons_token TStar (tokenize cs))
      else if c = of_char CHR ''/'' then
        (if cs \<noteq> [] \<and> (hd cs = of_char CHR ''/'' \<or> hd cs = of_char CHR ''*'') then None
         else cons_token TSlash (tokenize cs))
      else None)"

datatype binop = Add | Sub | Mul | Div | Mod | Pow

datatype stack_op = Bin binop | UPlus | UMinus | Group | Call

datatype phase = Operand | Operator | CallOpened

datatype outcome = Value number | Raises | Unsupported

text \<open>
  Multiplication, division and remainder of doubles: the exact result, rounded. \<open>None\<close>
  where the result is not modelled: an operand that is not finite, or a zero result with a
  negative operand, which would be the negative zero.
\<close>

fun number_mul :: "number \<Rightarrow> number \<Rightarrow> number option" where
  "number_mul (Finite a) (Finite b) =
     (let r = to_double (a * b)
      in if r = Finite 0 \<and> (a < 0 \<or> b < 0) then None else Some r)"
| "number_mul _ _ = None"

fun number_div :: "number \<Rightarrow> number \<Rightarrow> number option" where
  "number_div (Finite a) (Finite b) =
     (if b = 0 then Some (if a = 0 then NaN else if 0 < a then PosInfinity else NegInfinity)
      else (let r = to_double (a / b)
            in if r = Finite 0 \<and> (a < 0 \<or> b < 0) then None else Some r))"
| "number_div _ _ = None"

fun number_mod :: "number \<Rightarrow> number \<Rightarrow> number option" where
  "number_mod (Finite a) (Finite b) =
     (if b = 0 then Some NaN
      else (let q = a / b;
                t = (if 0 \<le> q then \<lfloor>q\<rfloor> else \<lceil>q\<rceil>);
                r = a - b * of_int t
            in if r = 0 \<and> a < 0 then None else Some (Finite r)))"
| "number_mod _ _ = None"

fun apply_binop :: "binop \<Rightarrow> number option \<Rightarrow> number option \<Rightarrow> number option" where
  "apply_binop Add (Some a) (Some b) = Some (number_add a b)"
| "apply_binop Sub (Some a) (Some b) = Some (number_add a (negate b))"
| "apply_binop Mul (Some a) (Some b) = number_mul a b"
| "apply_binop Div (Some a) (Some b) = number_div a b"
| "apply_binop Mod (Some a) (Some b) = number_mod a b"
| "apply_binop _ _ _ = None"

fun apply_minus :: "number option \<Rightarrow> number option" where
  "apply_minus (Some (Finite a)) = (if a = 0 then None else Some (Finite (- a)))"
| "apply_minus (Some v) = Some (negate v)"
| "apply_minus None = None"

text \<open>
  Operator precedence parsing with a stack of values and a stack of pending operators,
  evaluating as it reduces. A value is \<open>None\<close> when it is not modelled.
\<close>

fun reduce_top :: "stack_op \<Rightarrow> number option list \<Rightarrow> number option list option" where
  "reduce_top (Bin b) (y # x # vs) = Some (apply_binop b x y # vs)"
| "reduce_top UPlus (v # vs) = Some (v # vs)"
| "reduce_top UMinus (v # vs) = Some (apply_minus v # vs)"
| "reduce_top _ _ = None"

fun reduce_ops ::
  "(stack_op \<Rightarrow> bool) \<Rightarrow> number option list \<Rightarrow> stack_op list
   \<Rightarrow> number option list \<times> stack_op list" where
  "reduce_ops p vs [] = (vs, [])"
| "reduce_ops p vs (x # os) =
     (if p x
      then (case reduce_top x vs of
              Some vs' \<Rightarrow> reduce_ops p vs' os
            | None \<Rightarrow> (vs, x # os))
      else (vs, x # os))"

fun precedence :: "binop \<Rightarrow> nat" where
  "precedence Add = 1"
| "precedence Sub = 1"
| "precedence Mul = 2"
| "precedence Div = 2"
| "precedence Mod = 2"
| "precedence Pow = 4"

fun is_operator :: "stack_op \<Rightarrow> bool" where
  "is_operator (Bin _) = True"
| "is_operator UPlus = True"
| "is_operator UMinus = True"
| "is_operator _ = False"

fun yields_to :: "binop \<Rightarrow> stack_op \<Rightarrow> bool" where
  "yields_to b (Bin b') = (precedence b \<le> precedence b')"
| "yields_to b UPlus = True"
| "yields_to b UMinus = True"
| "yields_to b _ = False"

fun binary_of :: "token \<Rightarrow> binop option" where
  "binary_of TPlus = Some Add"
| "binary_of TMinus = Some Sub"
| "binary_of TStar = Some Mul"
| "binary_of TSlash = Some Div"
| "binary_of TPercent = Some Mod"
| "binary_of TPow = Some Pow"
| "binary_of _ = None"

definition finish :: "number option list \<Rightarrow> stack_op list \<Rightarrow> outcome" where
  "finish vs os =
     (case reduce_ops is_operator vs os of
        ([Some v], []) \<Rightarrow> Value v
      | (_, _ # _) \<Rightarrow> Raises
      | _ \<Rightarrow> Unsupported)"

text \<open>
  In phase \<open>Operand\<close> an operand is due, in phase \<open>Operator\<close> an operand has just ended,
  \<open>CallOpened\<close> is \<open>Operand\<close> right after the parenthesis of a call. A slash where an
  operand is due starts a regular expression. A unary operator may not be the base of
  \<open>**\<close>.
\<close>

fun shunt :: "phase \<Rightarrow> number option list \<Rightarrow> stack_op list \<Rightarrow> token list \<Rightarrow> outcome" where
  "shunt ph vs os [] = (if ph = Operator then finish vs os else Raises)"
| "shunt ph vs os (t # ts) =
     (if ph = Operator
      then (case t of
              TNum _ \<Rightarrow> Raises
            | TIdent \<Rightarrow> Raises
            | TLParen \<Rightarrow> shunt CallOpened vs (Call # os) ts
            | TRParen \<Rightarrow>
                (case reduce_ops is_operator vs os of
                   (vs', Group # os') \<Rightarrow> shunt Operator vs' os' ts
                 | (_ # _ # vs', Call # os') \<Rightarrow> shunt Operator (None # vs') os' ts
                 | (_, []) \<Rightarrow> Raises
                 | _ \<Rightarrow> Unsupported)
            | _ \<Rightarrow>
                (case binary_of t of
                   None \<Rightarrow> Unsupported
                 | Some Pow \<Rightarrow>
                     (case os of
                        UPlus # _ \<Rightarrow> Raises
                      | UMinus # _ \<Rightarrow> Raises
                      | _ \<Rightarrow> shunt Operand vs (Bin Pow # os) ts)
                 | Some b \<Rightarrow>
                     (case reduce_ops (yields_to b) vs os of
                        (vs', os') \<Rightarrow> shunt Operand vs' (Bin b # os') ts)))
      else (case t of
              TNum v \<Rightarrow> shunt Operator (Some (to_double v) # vs) os ts
            | TIdent \<Rightarrow> shunt Operator (None # vs) os ts
            | TLParen \<Rightarrow> shunt Operand vs (Group # os) ts
            | TPlus \<Rightarrow> shunt Operand vs (UPlus # os) ts
            | TMinus \<Rightarrow> shunt Operand vs (UMinus # os) ts
            | TRParen \<Rightarrow>
                (if ph = CallOpened
                 then (case (vs, os) of
                         (_ # vs', Call # os') \<Rightarrow> shunt Operator (None # vs') os' ts
                       | _ \<Rightarrow> Unsupported)
                 else Raises)
            | TSlash \<Rightarrow> Unsupported
            | _ \<Rightarrow> Raises))"

definition js_eval :: "ustring \<Rightarrow> outcome" where
  "js_eval s = (case tokenize s of None \<Rightarrow> Unsupported | Some ts \<Rightarrow> shunt Operand [] [] ts)"

text \<open>
  \<open>new Decimal(v).toString()\<close> for a number \<open>v\<close>: the constructor keeps the digits of
  \<open>v.toString()\<close>, and both print in exponential notation for the same exponents, so the
  text is that of \<open>v.toString()\<close>; the constructor accepts the infinities and NaN.
\<close>

definition decimal_toString :: "number \<Rightarrow> ustring" where
  "decimal_toString v = number_toString v"

text \<open>
  The evaluator used in the scenarios below. It throws on text outside the fragment; every
  scenario states the outcome of \<open>js_eval\<close> on its text, which is never \<open>Unsupported\<close>.
\<close>

definition evaluate :: evaluator where
  "evaluate s = (case js_eval s of Value v \<Rightarrow> Normal (decimal_toString v) | _ \<Rightarrow> Throw)"

section \<open>Scenario states\<close>

definition division_state :: CalculatorState where
  "division_state = initial_state\<lparr>input := js ''1/0'', display := js ''1/0''\<rparr>"

definition sine_state :: CalculatorState where
  "sine_state = initial_state\<lparr>input := js ''sin(30)'', display := js ''sin(30)''\<rparr>"

text \<open>A full history of 100 different entries: entry \<open>n\<close> is the calculation of \<open>n + 1\<close> sevens.\<close>

definition numbered_entry :: "nat \<Rightarrow> HistoryEntry" where
  "numbered_entry n =
     \<lparr>entry_input = replicate (Suc n) (of_char CHR ''7''),
      entry_result = replicate (Suc n) (of_char CHR ''7''),
      entry_latex = generateLatex (replicate (Suc n) (of_char CHR ''7''))
                      (replicate (Suc n) (of_char CHR ''7''))\<rparr>"

definition full_history_state :: CalculatorState where
  "full_history_state =
     initial_state\<lparr>input := js ''8'', display := js ''8'',
       history := map numbered_entry [0..<100]\<rparr>"

definition stale_error_actions :: "action list" where
  "stale_error_actions =
     [AppendToInput (js ''2''), AppendToInput (js ''+''), AppendToInput (js ''2''), Calculate,
      AppendToInput (js ''(''), Calculate]"



definition long_fraction_state :: CalculatorState where
  "long_fraction_state =
     initial_state\<lparr>input := js ''123456789012.25'', display := js ''123456789012.25''\<rparr>"

section \<open>Properties of the rewriter\<close>

lemma replace_all_single_absent:
  "c \<notin> set rep \<Longrightarrow> c \<notin> set (replace_all [c] rep s)"
  by (induction "[c]" rep s rule: replace_all.induct) (auto simp: starts_with_def)

lemma replace_all_keeps_absent:
  "c \<notin> set s \<Longrightarrow> c \<notin> set rep \<Longrightarrow> c \<notin> set (replace_all pat rep s)"
proof (induction pat rep s rule: replace_all.induct)
  case (1 pat rep)
  then show ?case by simp
next
  case (2 pat rep d ds)
  have "set (drop (length pat - 1) ds) \<subseteq> set ds"
    by (rule set_drop_subset)
  with 2 show ?case by auto
qed

lemma prepare_has_no_e:
  "of_char CHR ''e'' \<notin> set (prepareInputForCalculation inp m)"
proof -
  let ?e = "of_char CHR ''e'' :: codeunit"
  have E: "js ''e'' = [?e]"
    by (simp add: js_def)
  have base: "?e \<notin> set (replace_all (js ''e'') (js ''Math.E'') t)" for t
    unfolding E by (rule replace_all_single_absent) (simp add: js_def)
  show ?thesis
    unfolding prepareInputForCalculation_def Let_def
    by (intro base replace_all_keeps_absent) (simp_all add: js_def)
qed

lemma replace_all_unit:
  "replace_all [c] rep s = concat (map (\<lambda>x. if x = c then rep else [x]) s)"
  by (induction s) (simp_all add: starts_with_def)

lemma starts_with_append:
  assumes "z \<noteq> []" and "hd z \<notin> set pat"
  shows "starts_with (x @ z) pat = starts_with x pat"
proof (cases "length pat \<le> length x")
  case True
  then show ?thesis
    by (simp add: starts_with_def)
next
  case False
  then have short: "length x < length pat"
    by simp
  have "\<not> starts_with x pat"
    using short by (auto simp: starts_with_def dest: arg_cong [where f = length])
  moreover have "\<not> starts_with (x @ z) pat"
  proof
    assume "starts_with (x @ z) pat"
    then have eq: "take (length pat) (x @ z) = pat"
      by (simp add: starts_with_def)
    have "pat ! length x = take (length pat) (x @ z) ! length x"
      by (simp only: eq)
    also have "\<dots> = (x @ z) ! length x"
      using short by (rule nth_take)
    also have "\<dots> = hd z"
      using assms(1) by (simp add: nth_append hd_conv_nth)
    finally have "hd z = pat ! length x"
      by simp
    then have "hd z \<in> set pat"
      using short by simp
    with assms(2) show False
      by simp
  qed
  ultimately show ?thesis
    by simp
qed

text \<open>A match cannot reach into a text that starts with a unit foreign to the pattern.\<close>

lemma replace_all_append:
  "z \<noteq> [] \<Longrightarrow> hd z \<notin> set pat \<Longrightarrow>
   replace_all pat rep (x @ z) = replace_all pat rep x @ replace_all pat rep z"
proof (induction pat rep x rule: replace_all.induct)
  case (1 pat rep)
  show ?case by simp
next
  case (2 pat rep c cs)
  have sw: "starts_with ((c # cs) @ z) pat = starts_with (c # cs) pat"
    using "2.prems" by (rule starts_with_append)
  show ?case
  proof (cases "pat \<noteq> [] \<and> starts_with (c # cs) pat")
    case True
    then have "length pat \<le> Suc (length cs)"
      by (auto simp: starts_with_def dest: arg_cong [where f = length])
    then have "drop (length pat - 1) (cs @ z) = drop (length pat - 1) cs @ z"
      by simp
    with True sw "2.IH"(1) "2.prems" show ?thesis
      by simp
  next
    case False
    with sw "2.IH"(2) "2.prems" show ?thesis
      by auto
  qed
qed

text \<open>None of the seven later patterns matches at a position inside \<open>Math.E\<close>.\<close>

lemma euler_token_inside:
  "replace_all (js ''sin('') rep (js ''Math.E'' @ y) = js ''Math.E'' @ replace_all (js ''sin('') rep y"
  "replace_all (js ''cos('') rep (js ''Math.E'' @ y) = js ''Math.E'' @ replace_all (js ''cos('') rep y"
  "replace_all (js ''tan('') rep (js ''Math.E'' @ y) = js ''Math.E'' @ replace_all (js ''tan('') rep y"
  "replace_all (js ''log('') rep (js ''Math.E'' @ y) = js ''Math.E'' @ replace_all (js ''log('') rep y"
  "replace_all (js ''ln('') rep (js ''Math.E'' @ y) = js ''Math.E'' @ replace_all (js ''ln('') rep y"
  "replace_all (js ''sqrt('') rep (js ''Math.E'' @ y) = js ''Math.E'' @ replace_all (js ''sqrt('') rep y"
  "replace_all (js ''abs('') rep (js ''Math.E'' @ y) = js ''Math.E'' @ replace_all (js ''abs('') rep y"
  by (simp_all add: js_def starts_with_def)

lemma euler_token_kept:
  assumes "of_char CHR ''M'' \<notin> set pat"
    and "replace_all pat rep (js ''Math.E'' @ y) = js ''Math.E'' @ replace_all pat rep y"
  shows "replace_all pat rep (x @ js ''Math.E'' @ y)
         = replace_all pat rep x @ js ''Math.E'' @ replace_all pat rep y"
proof -
  have "js ''Math.E'' @ y \<noteq> []" and "hd (js ''Math.E'' @ y) \<notin> set pat"
    using assms(1) by (simp_all add: js_def)
  then have "replace_all pat rep (x @ js ''Math.E'' @ y)
             = replace_all pat rep x @ replace_all pat rep (js ''Math.E'' @ y)"
    by (rule replace_all_append)
  with assms(2) show ?thesis
    by simp
qed

lemma euler_token_kept_by_stage:
  "replace_all (js ''sin('') rep (x @ js ''Math.E'' @ y)
     = replace_all (js ''sin('') rep x @ js ''Math.E'' @ replace_all (js ''sin('') rep y"
  "replace_all (js ''cos('') rep (x @ js ''Math.E'' @ y)
     = replace_all (js ''cos('') rep x @ js ''Math.E'' @ replace_all (js ''cos('') rep y"
  "replace_all (js ''tan('') rep (x @ js ''Math.E'' @ y)
     = replace_all (js ''tan('') rep x @ js ''Math.E'' @ replace_all (js ''tan('') rep y"
  "replace_all (js ''log('') rep (x @ js ''Math.E'' @ y)
     = replace_all (js ''log('') rep x @ js ''Math.E'' @ replace_all (js ''log('') rep y"
  "replace_all (js ''ln('') rep (x @ js ''Math.E'' @ y)
     = replace_all (js ''ln('') rep x @ js ''Math.E'' @ replace_all (js ''ln('') rep y"
  "replace_all (js ''sqrt('') rep (x @ js ''Math.E'' @ y)
     = replace_all (js ''sqrt('') rep x @ js ''Math.E'' @ replace_all (js ''sqrt('') rep y"
  "replace_all (js ''abs('') rep (x @ js ''Math.E'' @ y)
     = replace_all (js ''abs('') rep x @ js ''Math.E'' @ replace_all (js ''abs('') rep y"
  by (rule euler_token_kept, simp add: js_def, rule euler_token_inside)+

lemma prepare_distributes_over_e:
  "prepareInputForCalculation (a @ js ''e'' @ b) m
     = prepareInputForCalculation a m @ js ''Math.E'' @ prepareInputForCalculation b m"
proof -
  have unit: "js ''^'' = [of_char CHR ''^'']" "js ''e'' = [of_char CHR ''e'']"
    by (simp_all add: js_def)
  have first: "replace_all [of_char CHR ''e''] (js ''Math.E'')
                 (replace_all [pi_unit] (js ''Math.PI'')
                   (replace_all [of_char CHR ''^''] (js ''**'') (a @ [of_char CHR ''e''] @ b)))
               = replace_all [of_char CHR ''e''] (js ''Math.E'')
                   (replace_all [pi_unit] (js ''Math.PI'')
                     (replace_all [of_char CHR ''^''] (js ''**'') a))
                 @ js ''Math.E''
                 @ replace_all [of_char CHR ''e''] (js ''Math.E'')
                     (replace_all [pi_unit] (js ''Math.PI'')
                       (replace_all [of_char CHR ''^''] (js ''**'') b))"
    by (simp add: replace_all_unit pi_unit_def)
  show ?thesis
    unfolding prepareInputForCalculation_def Let_def unit first
    by (simp only: euler_token_kept_by_stage)
qed

text \<open>
  C10. The rewrite replaces every occurrence of the letter e by the text \<open>Math.E\<close>, whatever
  stands before and after it, and rewrites the text on either side as it would alone; no
  rewritten text contains the letter e any more. This holds inside a numeric literal in
  scientific notation too: in every mode the input \<open>2e3\<close> is rewritten to \<open>2Math.E3\<close>.
\<close>

theorem rewrite_replaces_every_e:
  "prepareInputForCalculation (js ''2e3'') m = js ''2Math.E3''
   \<and> prepareInputForCalculation (a @ js ''e'' @ b) m
       = prepareInputForCalculation a m @ js ''Math.E'' @ prepareInputForCalculation b m
   \<and> of_char CHR ''e'' \<notin> set (prepareInputForCalculation inp m)"
proof (intro conjI)
  show "prepareInputForCalculation (js ''2e3'') m = js ''2Math.E3''"
    by (simp add: prepareInputForCalculation_def js_def pi_unit_def starts_with_def)
  show "prepareInputForCalculation (a @ js ''e'' @ b) m
        = prepareInputForCalculation a m @ js ''Math.E'' @ prepareInputForCalculation b m"
    by (rule prepare_distributes_over_e)
  show "of_char CHR ''e'' \<notin> set (prepareInputForCalculation inp m)"
    by (rule prepare_has_no_e)
qed

section \<open>Evaluating the model\<close>

text \<open>
  Floor and ceiling of a fraction of numerals, for the simplifier, and the definitions it
  unfolds to run the number model and the evaluator on concrete text.
\<close>

lemma floor_rat_numeral [simp]:
  "\<lfloor>numeral a / numeral b :: rat\<rfloor> = numeral a div numeral b"
  by (metis floor_divide_of_int_eq of_int_numeral)

lemma floor_rat_neg_numeral [simp]:
  "\<lfloor>- (numeral a / numeral b) :: rat\<rfloor> = - numeral a div numeral b"
  by (metis floor_divide_of_int_eq of_int_numeral of_int_minus minus_divide_left)

lemma ceiling_rat_numeral [simp]:
  "\<lceil>numeral a / numeral b :: rat\<rceil> = - (- numeral a div numeral b)"
  unfolding ceiling_def
  by (metis floor_divide_of_int_eq of_int_numeral of_int_minus minus_divide_left)

lemmas number_eval =
  Let_def js_def starts_with_def pi_unit_def
  pow_int_def digit_count.simps ilog_def round_half_even_def to_double_pos_def to_double_def
  digit_unit_def decimal_digits.simps zeros.simps nearest_even_def normalise_digits_def
  shortest_candidate_def shortest_from.simps exponent_text_def positive_toString_def
  scaled_digits_def is_digit_def digits_value_def is_whitespace_def scan_exponent_def
  scan_decimal_def parseFloat_def radix_literal_def isNaN_Number_def
  strip_trailing_zeros_def isInteger_def infinity_sign_def lit_1e_7_def isOperator_def

lemmas evaluator_eval =
  is_letter_def is_ident_char_def lex_number_def lex_math_def cons_token_def finish_def
  js_eval_def decimal_toString_def evaluate_def

lemma eval_division: "js_eval (js ''1/0'') = Value PosInfinity"
  by (simp add: number_eval evaluator_eval cong: let_weak_cong)

lemma eval_two_plus_two: "js_eval (js ''2+2'') = Value (Finite 4)"
  by (simp add: number_eval evaluator_eval cong: let_weak_cong)

lemma eval_unclosed: "js_eval (js ''2+2('') = Raises"
  by (simp add: number_eval evaluator_eval cong: let_weak_cong)

lemma eval_sine_deg: "js_eval (js ''Math.sin(* Math.PI / 180)30)'') = Raises"
  by (simp add: number_eval evaluator_eval cong: let_weak_cong)

lemma eval_sine_rad: "js_eval (js ''Math.sin()30)'') = Raises"
  by (simp add: number_eval evaluator_eval cong: let_weak_cong)

lemma toString_four: "number_toString (Finite 4) = js ''4''"
  by (simp add: number_eval cong: let_weak_cong)

lemma prepare_division: "prepareInputForCalculation (js ''1/0'') m = js ''1/0''"
  by (simp add: prepareInputForCalculation_def js_def pi_unit_def starts_with_def)

lemma prepare_sine:
  "prepareInputForCalculation (js ''sin(30)'') m =
     (if m = DEG then js ''Math.sin(* Math.PI / 180)30)'' else js ''Math.sin()30)'')"
  by (simp add: prepareInputForCalculation_def js_def pi_unit_def starts_with_def)

lemma numeric_five: "\<not> isNaN_Number (js ''5'')"
  by (simp add: number_eval cong: let_weak_cong)

lemma not_numeric_paren: "isNaN_Number (js ''('')"
  by (simp add: number_eval cong: let_weak_cong)


lemma toString_large_integer: "number_toString (Finite (10 ^ 11)) = js ''100000000000''"
  by (simp add: number_eval cong: let_weak_cong)

lemma toExponential_large_integer:
  "toExponential 10 (Finite (10 ^ 11)) = js ''1.0000000000e+11''"
  by (simp add: number_eval cong: let_weak_cong)

lemma toExponential_9_large_integer:
  "toExponential 9 (Finite (10 ^ 11)) = js ''1.000000000e+11''"
  by (simp add: number_eval cong: let_weak_cong)

lemma toString_long_fraction:
  "number_toString (Finite (493827156049 / 4)) = js ''123456789012.25''"
  by (simp add: number_eval cong: let_weak_cong)

lemma toExponential_long_fraction:
  "toExponential 10 (Finite (493827156049 / 4)) = js ''1.2345678901e+11''"
  by (simp add: number_eval cong: let_weak_cong)

section \<open>Properties of the store\<close>

lemma calculate_success:
  assumes "input st \<noteq> []"
    and "run (prepareInputForCalculation (input st) (mode st)) = Normal r"
  shows "calculate run st =
         st\<lparr>result := r, display := r, latex := generateLatex (input st) r,
            history := take 100 (\<lparr>entry_input = input st, entry_result = r,
                                   entry_latex = generateLatex (input st) r\<rparr> # history st),
            error := None\<rparr>"
  using assms by (simp add: calculate_def)

lemma calculate_failure:
  assumes "input st \<noteq> []"
    and "run (prepareInputForCalculation (input st) (mode st)) = Throw"
  shows "calculate run st = st\<lparr>error := Some (js ''Error in calculation'')\<rparr>"
  using assms by (simp add: calculate_def)

lemma evaluate_division: "evaluate (js ''1/0'') = Normal (js ''Infinity'')"
  by (simp add: evaluate_def eval_division decimal_toString_def)

lemma evaluate_two_plus_two: "evaluate (js ''2+2'') = Normal (js ''4'')"
  by (simp only: evaluate_def eval_two_plus_two outcome.case decimal_toString_def toString_four)

lemma evaluate_unclosed: "evaluate (js ''2+2('') = Throw"
  by (simp add: evaluate_def eval_unclosed)

lemma evaluate_sine: "evaluate (prepareInputForCalculation (js ''sin(30)'') m) = Throw"
  by (simp add: prepare_sine evaluate_def eval_sine_deg eval_sine_rad)

text \<open>
  C1, as the code has it. For a state whose input is \<open>1/0\<close>, in any mode, the evaluation
  does not fail: the quotient is the number Infinity, which the decimal library accepts.
  \<open>calculate\<close> sets result and display to \<open>Infinity\<close>, prepends a history entry, clears
  the error and leaves the input unchanged.
\<close>

theorem division_by_zero_yields_infinity:
  assumes "input st = js ''1/0''"
  shows "js_eval (prepareInputForCalculation (input st) (mode st)) = Value PosInfinity
         \<and> calculate evaluate st =
         st\<lparr>result := js ''Infinity'', display := js ''Infinity'',
            latex := js ''1/0 = Infinity'',
            history := take 100 (\<lparr>entry_input = js ''1/0'', entry_result = js ''Infinity'',
                                   entry_latex = js ''1/0 = Infinity''\<rparr> # history st),
            error := None\<rparr>"
proof -
  have nonempty: "input st \<noteq> []"
    using assms by (simp add: js_def)
  have run: "evaluate (prepareInputForCalculation (input st) (mode st)) = Normal (js ''Infinity'')"
    using assms by (simp add: prepare_division evaluate_division)
  have latex: "generateLatex (js ''1/0'') (js ''Infinity'') = js ''1/0 = Infinity''"
    by (simp add: generateLatex_def js_def)
  have outcome: "js_eval (prepareInputForCalculation (input st) (mode st)) = Value PosInfinity"
    using assms by (simp add: prepare_division eval_division)
  show ?thesis
    using calculate_success [of st evaluate "js ''Infinity''"] nonempty run assms latex outcome
    by simp
qed

theorem division_by_zero_yields_infinity_witness:
  "input division_state = js ''1/0''
   \<and> error (calculate evaluate division_state) = None
   \<and> result (calculate evaluate division_state) = js ''Infinity''
   \<and> input (calculate evaluate division_state) = js ''1/0''"
proof -
  have i: "input division_state = js ''1/0''"
    by (simp add: division_state_def)
  show ?thesis
    using i division_by_zero_yields_infinity [OF i] by simp
qed

text \<open>
  C1, as the specification states it, fails on the state \<open>division_state\<close> (the initial state
  after the keys 1, /, 0): \<open>calculate\<close> leaves no error, changes the display from \<open>1/0\<close> to
  \<open>Infinity\<close> and appends a history entry.
\<close>

theorem division_by_zero_counterexample:
  "js_eval (prepareInputForCalculation (input division_state) (mode division_state))
     = Value PosInfinity
   \<and> error (calculate evaluate division_state) = None
   \<and> display division_state = js ''1/0''
   \<and> display (calculate evaluate division_state) = js ''Infinity''
   \<and> history division_state = []
   \<and> history (calculate evaluate division_state) =
       [\<lparr>entry_input = js ''1/0'', entry_result = js ''Infinity'',
         entry_latex = js ''1/0 = Infinity''\<rparr>]"
proof -
  have i: "input division_state = js ''1/0''"
    by (simp add: division_state_def)
  have nonempty: "input division_state \<noteq> []"
    by (simp add: i js_def)
  have run: "evaluate (prepareInputForCalculation (input division_state) (mode division_state))
             = Normal (js ''Infinity'')"
    by (simp add: i prepare_division evaluate_division)
  have latex: "generateLatex (js ''1/0'') (js ''Infinity'') = js ''1/0 = Infinity''"
    by (simp add: generateLatex_def js_def)
  have h: "history division_state = []" and d: "display division_state = js ''1/0''"
    by (simp_all add: division_state_def initial_state_def)
  have e: "js_eval (prepareInputForCalculation (input division_state) (mode division_state))
           = Value PosInfinity"
    by (simp add: i prepare_division eval_division)
  show ?thesis
    using calculate_success [of division_state evaluate "js ''Infinity''"] nonempty run i h d e latex
    by simp
qed

text \<open>
  C2. With input \<open>sin(30)\<close> in DEG mode the rewrite yields \<open>Math.sin(* Math.PI / 180)30)\<close>:
  the scale factor stands inside the parentheses, before the argument, and the call is
  closed before it. That text is no expression, and so is \<open>Math.sin()30)\<close> in the other
  modes. \<open>calculate\<close> reports an error and computes no result.
\<close>

theorem sine_of_thirty_degrees_fails:
  "prepareInputForCalculation (js ''sin(30)'') DEG = js ''Math.sin(* Math.PI / 180)30)''
   \<and> js_eval (js ''Math.sin(* Math.PI / 180)30)'') = Raises
   \<and> js_eval (prepareInputForCalculation (js ''sin(30)'') m) = Raises
   \<and> mode sine_state = DEG
   \<and> calculate evaluate sine_state = sine_state\<lparr>error := Some (js ''Error in calculation'')\<rparr>
   \<and> result (calculate evaluate sine_state) = []"
proof -
  have i: "input sine_state = js ''sin(30)''" and m: "mode sine_state = DEG"
    and r: "result sine_state = []"
    by (simp_all add: sine_state_def initial_state_def)
  have nonempty: "input sine_state \<noteq> []"
    by (simp add: i js_def)
  have run: "evaluate (prepareInputForCalculation (input sine_state) (mode sine_state)) = Throw"
    by (simp add: i evaluate_sine)
  have any: "js_eval (prepareInputForCalculation (js ''sin(30)'') m) = Raises"
    by (simp add: prepare_sine eval_sine_deg eval_sine_rad)
  show ?thesis
    using calculate_failure [of sine_state evaluate] nonempty run m r any
    by (simp add: prepare_sine eval_sine_deg)
qed

lemma calculate_history:
  "history (calculate run st) =
     (if input st = [] then history st
      else (case run (prepareInputForCalculation (input st) (mode st)) of
              Throw \<Rightarrow> history st
            | Normal r \<Rightarrow>
                \<lparr>entry_input = input st, entry_result = r,
                 entry_latex = generateLatex (input st) r\<rparr> # take 99 (history st)))"
  by (simp add: calculate_def Let_def take_Cons' split: completion.split)

lemma perform_history:
  "history (perform run a st) =
     (if a = ClearHistory then []
      else if a = Calculate then history (calculate run st)
      else history st)"
  by (cases a)
    (simp_all add: appendToInput_def clearInput_def clearAll_def setMode_def toggleShift_def
      toggleInverse_def toggleHyperbolic_def storeInMemory_def recallFromMemory_def
      clearMemory_def clearHistory_def setPrecision_def backspace_def Let_def
      split: option.split)

lemma history_perform:
  "length (history st) \<le> 100 \<Longrightarrow> length (history (perform run a st)) \<le> 100"
  by (simp add: perform_history calculate_history split: completion.split)

lemma ledger_step_cases:
  "ledger_step run a st entries =
     (if a = ClearHistory then []
      else if a = Calculate \<and> input st \<noteq> []
      then (case run (prepareInputForCalculation (input st) (mode st)) of
              Throw \<Rightarrow> entries
            | Normal r \<Rightarrow>
                \<lparr>entry_input = input st, entry_result = r,
                 entry_latex = generateLatex (input st) r\<rparr> # entries)
      else entries)"
  by (cases a) simp_all

lemma ledger_perform:
  "history st = take 100 entries \<Longrightarrow>
   history (perform run a st) = take 100 (ledger_step run a st entries)"
  by (simp add: perform_history calculate_history ledger_step_cases take_Cons'
      split: completion.split)

lemma ledger_foldl:
  "history st = take 100 entries \<Longrightarrow>
   history (fst (foldl (\<lambda>(st, entries) a. (perform run a st, ledger_step run a st entries))
                  (st, entries) acts))
     = take 100 (snd (foldl (\<lambda>(st, entries) a. (perform run a st, ledger_step run a st entries))
                        (st, entries) acts))"
  by (induction acts arbitrary: st entries) (simp_all add: ledger_perform)

lemma session_fst:
  "fst (foldl (\<lambda>(st, entries) a. (perform run a st, ledger_step run a st entries))
          (st, entries) acts)
     = foldl (\<lambda>st a. perform run a st) st acts"
  by (induction acts arbitrary: st entries) simp_all

lemma history_session_ledger:
  "history (session run acts) = take 100 (uncapped_ledger run acts)"
proof -
  have "history initial_state = take 100 []"
    by (simp add: initial_state_def)
  from ledger_foldl [OF this, of run acts] show ?thesis
    by (simp add: session_def uncapped_ledger_def session_fst)
qed

lemma history_session: "length (history (session run acts)) \<le> 100"
  by (simp add: history_session_ledger)

lemma numbered_entry_eq: "numbered_entry m = numbered_entry n \<longleftrightarrow> m = n"
  by (auto simp: numbered_entry_def)

text \<open>
  C3. In every state reached from the initial state by any sequence of actions, with any
  behaviour of the evaluator, the history is the first 100 entries of the ledger of the
  session, which lists the successful calculations since the history was last cleared,
  most recent first; so it has at most 100 entries. Every action keeps that bound, and
  every action leaves the history as it is, except \<open>clearHistory\<close>, which empties it, and a
  successful \<open>calculate\<close>, which puts the new entry first, followed by the 99 most recent
  earlier entries in their order: with 100 entries present, the oldest one, at the end, is
  dropped.
\<close>

theorem history_capped_most_recent_first:
  "length (history (session run acts)) \<le> 100
   \<and> history (session run acts) = take 100 (uncapped_ledger run acts)
   \<and> (length (history st) \<le> 100 \<longrightarrow> length (history (perform run a st)) \<le> 100)
   \<and> history (perform run a st) =
       (if a = ClearHistory then []
        else if a = Calculate \<and> input st \<noteq> []
        then (case run (prepareInputForCalculation (input st) (mode st)) of
                Throw \<Rightarrow> history st
              | Normal r \<Rightarrow>
                  \<lparr>entry_input = input st, entry_result = r,
                   entry_latex = generateLatex (input st) r\<rparr> # take 99 (history st))
        else history st)
   \<and> (input st \<noteq> [] \<and> run (prepareInputForCalculation (input st) (mode st)) = Normal r \<longrightarrow>
        history (calculate run st) =
          \<lparr>entry_input = input st, entry_result = r,
           entry_latex = generateLatex (input st) r\<rparr> # take 99 (history st))"
proof (intro conjI impI)
  show "length (history (session run acts)) \<le> 100"
    by (rule history_session)
  show "history (session run acts) = take 100 (uncapped_ledger run acts)"
    by (rule history_session_ledger)
  show "length (history (perform run a st)) \<le> 100" if "length (history st) \<le> 100"
    using that by (rule history_perform)
  show "history (perform run a st) =
       (if a = ClearHistory then []
        else if a = Calculate \<and> input st \<noteq> []
        then (case run (prepareInputForCalculation (input st) (mode st)) of
                Throw \<Rightarrow> history st
              | Normal r \<Rightarrow>
                  \<lparr>entry_input = input st, entry_result = r,
                   entry_latex = generateLatex (input st) r\<rparr> # take 99 (history st))
        else history st)"
    by (simp add: perform_history calculate_history)
  show "history (calculate run st) =
          \<lparr>entry_input = input st, entry_result = r,
           entry_latex = generateLatex (input st) r\<rparr> # take 99 (history st)"
    if "input st \<noteq> [] \<and> run (prepareInputForCalculation (input st) (mode st)) = Normal r"
    using that by (simp add: calculate_history)
qed

theorem history_capped_most_recent_first_witness:
  "length (history full_history_state) = 100
   \<and> last (history full_history_state) = numbered_entry 99
   \<and> length (history (perform Normal Calculate full_history_state)) \<le> 100
   \<and> history (calculate Normal full_history_state) =
       \<lparr>entry_input = js ''8'', entry_result = js ''8'', entry_latex = js ''8 = 8''\<rparr>
       # map numbered_entry [0..<99]
   \<and> numbered_entry 99 \<notin> set (history (calculate Normal full_history_state))
   \<and> numbered_entry 98 = last (history (calculate Normal full_history_state))"
proof -
  have h: "history full_history_state = map numbered_entry [0..<100]"
    and i: "input full_history_state = js ''8''"
    by (simp_all add: full_history_state_def)
  have len: "length (history full_history_state) = 100"
    by (simp only: h) simp
  have l: "last (history full_history_state) = numbered_entry 99"
    by (simp only: h) (simp add: last_map)
  have p: "prepareInputForCalculation (input full_history_state) (mode full_history_state)
           = js ''8''"
    by (simp add: i prepareInputForCalculation_def js_def pi_unit_def starts_with_def)
  have t: "take 99 (map numbered_entry [0..<100]) = map numbered_entry [0..<99]"
    by (simp only: take_map take_upt) simp
  have g: "generateLatex (js ''8'') (js ''8'') = js ''8 = 8''"
    by (simp add: generateLatex_def js_def)
  have n: "input full_history_state \<noteq> []"
    by (simp add: i js_def)
  from history_capped_most_recent_first
    [of Normal "[]" full_history_state Calculate "js ''8''"]
  have bound: "length (history (perform Normal Calculate full_history_state)) \<le> 100"
    and new: "history (calculate Normal full_history_state) =
       \<lparr>entry_input = js ''8'', entry_result = js ''8'', entry_latex = js ''8 = 8''\<rparr>
       # map numbered_entry [0..<99]"
    using len n p by (simp_all only: h i t g simp_thms) simp_all
  have other: "\<lparr>entry_input = js ''8'', entry_result = js ''8'', entry_latex = js ''8 = 8''\<rparr>
               \<noteq> numbered_entry 99"
    by (auto simp: numbered_entry_def js_def dest: arg_cong [where f = length])
  have gone: "numbered_entry 99 \<notin> set (history (calculate Normal full_history_state))"
    using other by (auto simp: new numbered_entry_eq)
  have last: "numbered_entry 98 = last (history (calculate Normal full_history_state))"
    by (simp only: new) (simp add: last_map)
  show ?thesis
    using len l bound new gone last by simp
qed

lemma stale_error_state:
  "session evaluate stale_error_actions =
     initial_state\<lparr>input := js ''2+2('', display := js ''2+2('', result := js ''4'',
       latex := js ''2+2 = 4'',
       history := [\<lparr>entry_input = js ''2+2'', entry_result = js ''4'',
                    entry_latex = js ''2+2 = 4''\<rparr>],
       error := Some (js ''Error in calculation'')\<rparr>"
  by (simp add: stale_error_actions_def session_def initial_state_def appendToInput_def
      calculate_def prepareInputForCalculation_def generateLatex_def number_eval evaluator_eval
      cong: let_weak_cong)

text \<open>
  C4. After the keys 2, +, 2, =, (, = the store holds the result \<open>4\<close> and the error of the
  second calculation. \<open>appendToInput\<close> with the digit 5 then takes the branch that starts a
  new calculation, which sets input, display and result only: the error stays set.
\<close>

theorem append_after_result_keeps_error:
  "js_eval (js ''2+2'') = Value (Finite 4)
   \<and> js_eval (js ''2+2('') = Raises
   \<and> result (session evaluate stale_error_actions) = js ''4''
   \<and> error (session evaluate stale_error_actions) = Some (js ''Error in calculation'')
   \<and> error (appendToInput (js ''5'') (session evaluate stale_error_actions))
       = Some (js ''Error in calculation'')
   \<and> input (appendToInput (js ''5'') (session evaluate stale_error_actions)) = js ''5''
   \<and> error (appendToInput (js ''+'') (session evaluate stale_error_actions))
       = Some (js ''Error in calculation'')"
proof -
  have five: "\<not> isNaN_Number (js ''5'')"
    by (rule numeric_five)
  have plus: "isOperator (js ''+'')" and five': "\<not> isOperator (js ''5'')"
    by (simp_all add: isOperator_def js_def)
  have r: "result (session evaluate stale_error_actions) \<noteq> []"
    by (simp add: stale_error_state js_def)
  show ?thesis
    using five plus five' r eval_two_plus_two eval_unclosed
    by (simp add: appendToInput_def stale_error_state)
qed

lemma format_finite:
  "formatNumber (Num (Finite x)) =
     (if isInteger x \<or> length (number_toString (Finite x)) < 15 then number_toString (Finite x)
      else if 10 ^ 10 < \<bar>x\<bar> \<or> (\<bar>x\<bar> < lit_1e_7 \<and> x \<noteq> 0) then toExponential 10 (Finite x)
      else strip_trailing_zeros (toPrecision 10 (Finite x)))"
  by (simp only: formatNumber.simps Let_def)

lemma format_long_fraction:
  "formatNumber (Num (Finite (493827156049 / 4))) = js ''1.2345678901e+11''"
proof -
  have "\<not> isInteger (493827156049 / 4)"
    by (simp add: isInteger_def)
  moreover have "\<not> length (number_toString (Finite (493827156049 / 4))) < 15"
    by (simp only: toString_long_fraction) (simp add: js_def)
  moreover have "(10 :: rat) ^ 10 < \<bar>493827156049 / 4\<bar>"
    by simp
  ultimately have "formatNumber (Num (Finite (493827156049 / 4)))
                   = toExponential 10 (Finite (493827156049 / 4))"
    by (simp only: format_finite if_False if_True simp_thms)
  then show ?thesis
    by (simp only: toExponential_long_fraction)
qed

text \<open>
  C5, as the code has it. A finite integer, and a finite value whose default text is shorter
  than 15 characters, is returned as its default text, whatever its magnitude. For a finite
  value that is no integer and whose default text has at least 15 characters, with
  magnitude above 1e10 or nonzero and below 1e-7, \<open>formatNumber\<close> returns
  \<open>toExponential(10)\<close>: scientific notation with ten digits after the decimal point.
\<close>

theorem format_scientific_notation:
  "(isInteger x \<or> length (number_toString (Finite x)) < 15 \<longrightarrow>
      formatNumber (Num (Finite x)) = number_toString (Finite x))
   \<and> (\<not> isInteger x \<and> 15 \<le> length (number_toString (Finite x))
        \<and> (10 ^ 10 < \<bar>x\<bar> \<or> (\<bar>x\<bar> < lit_1e_7 \<and> x \<noteq> 0)) \<longrightarrow>
      formatNumber (Num (Finite x)) = toExponential 10 (Finite x))"
  by (simp only: format_finite) auto

theorem format_scientific_notation_witness:
  "\<not> isInteger (493827156049 / 4)
   \<and> number_toString (Finite (493827156049 / 4)) = js ''123456789012.25''
   \<and> (10 :: rat) ^ 10 < \<bar>493827156049 / 4\<bar>
   \<and> formatNumber (Num (Finite (493827156049 / 4))) = js ''1.2345678901e+11''
   \<and> isInteger (10 ^ 11)
   \<and> formatNumber (Num (Finite (10 ^ 11))) = js ''100000000000''"
proof -
  have a: "\<not> isInteger (493827156049 / 4)"
    by (simp add: isInteger_def)
  have b: "15 \<le> length (number_toString (Finite (493827156049 / 4)))"
    by (simp only: toString_long_fraction) (simp add: js_def)
  have c: "(10 :: rat) ^ 10 < \<bar>493827156049 / 4\<bar>"
    by simp
  have d: "isInteger (10 ^ 11)"
    by (simp add: isInteger_def)
  have "formatNumber (Num (Finite (493827156049 / 4))) = toExponential 10 (Finite (493827156049 / 4))"
    using format_scientific_notation [of "493827156049 / 4"] a b c by blast
  moreover have "formatNumber (Num (Finite (10 ^ 11))) = number_toString (Finite (10 ^ 11))"
    using format_scientific_notation [of "10 ^ 11"] d by blast
  ultimately show ?thesis
    using a c d
    by (simp only: toExponential_long_fraction toString_long_fraction toString_large_integer
        simp_thms)
qed

text \<open>
  C5, as the specification states it, fails at the integer 100000000000: its magnitude is above
  1e10, and \<open>formatNumber\<close> returns the plain digits, not scientific notation with nine
  or ten digits after the point.
\<close>

theorem format_large_integer_counterexample:
  "(10 :: rat) ^ 10 < \<bar>10 ^ 11\<bar>
   \<and> formatNumber (Num (Finite (10 ^ 11))) = js ''100000000000''
   \<and> toExponential 10 (Finite (10 ^ 11)) = js ''1.0000000000e+11''
   \<and> toExponential 9 (Finite (10 ^ 11)) = js ''1.000000000e+11''"
proof -
  have "isInteger (10 ^ 11)"
    by (simp add: isInteger_def)
  then have "formatNumber (Num (Finite (10 ^ 11))) = number_toString (Finite (10 ^ 11))"
    by (simp only: format_finite) simp
  then show ?thesis
    by (simp only: toString_large_integer toExponential_large_integer
        toExponential_9_large_integer) simp
qed










lemma append_plain:
  "result st = [] \<Longrightarrow>
   appendToInput v st = st\<lparr>input := input st @ v, display := input st @ v, error := None\<rparr>"
  by (simp add: appendToInput_def)

lemma appends_input:
  "result st = [] \<Longrightarrow>
   input (foldl (\<lambda>s c. appendToInput [c] s) st cs) = input st @ cs"
  by (induction cs arbitrary: st) (simp_all add: append_plain)

lemma backspace_input: "input (backspace st) = butlast (input st)"
  by (simp add: backspace_def Let_def)

lemma backspaces_input:
  "input ((backspace ^^ n) st) = take (length (input st) - n) (input st)"
proof (induction n)
  case 0
  then show ?case by simp
next
  case (Suc n)
  have "input ((backspace ^^ Suc n) st) = butlast (input ((backspace ^^ n) st))"
    by (simp add: backspace_input)
  also have "\<dots> = butlast (take (length (input st) - n) (input st))"
    by (simp only: Suc.IH)
  also have "\<dots> = take (length (input st) - Suc n) (input st)"
    by (simp add: butlast_take)
  finally show ?case .
qed

text \<open>
  C8. In a state without a result, appending the single characters \<open>cs\<close> one by one and
  then calling backspace once per character brings the input back to what it was.
\<close>

theorem append_backspace_roundtrip:
  "result st = [] \<Longrightarrow>
   input ((backspace ^^ length cs) (foldl (\<lambda>s c. appendToInput [c] s) st cs)) = input st"
  by (simp add: backspaces_input appends_input)

theorem append_backspace_roundtrip_witness:
  "result (initial_state\<lparr>input := js ''7*''\<rparr>) = []
   \<and> input (foldl (\<lambda>s c. appendToInput [c] s) (initial_state\<lparr>input := js ''7*''\<rparr>) (js ''12+''))
       = js ''7*12+''
   \<and> input ((backspace ^^ length (js ''12+''))
        (foldl (\<lambda>s c. appendToInput [c] s) (initial_state\<lparr>input := js ''7*''\<rparr>) (js ''12+'')))
       = js ''7*''"
proof -
  have r: "result (initial_state\<lparr>input := js ''7*''\<rparr>) = []"
    by (simp add: initial_state_def)
  have "input (foldl (\<lambda>s c. appendToInput [c] s) (initial_state\<lparr>input := js ''7*''\<rparr>) (js ''12+''))
        = js ''7*12+''"
    by (simp add: appends_input [OF r]) (simp add: js_def)
  then show ?thesis
    using r append_backspace_roundtrip [OF r, of "js ''12+''"] by simp
qed

lemma eval_long_fraction:
  "js_eval (js ''123456789012.25'') = Value (Finite (493827156049 / 4))"
  by (simp add: number_eval evaluator_eval cong: let_weak_cong)

text \<open>
  C9. \<open>formatNumber\<close> returns a string argument as it is, and \<open>calculate\<close> calls it with the
  text of the decimal: after a successful calculation result, display and the result of the
  new history entry are that text, whatever \<open>formatNumber\<close> would make of the number.
\<close>

theorem calculation_shows_decimal_text:
  "formatNumber (Str s) = s
   \<and> (input st \<noteq> [] \<and> run (prepareInputForCalculation (input st) (mode st)) = Normal r \<longrightarrow>
        result (calculate run st) = r \<and> display (calculate run st) = r
        \<and> entry_result (hd (history (calculate run st))) = r)"
proof (intro conjI impI)
  show "formatNumber (Str s) = s"
    by simp
next
  assume "input st \<noteq> [] \<and> run (prepareInputForCalculation (input st) (mode st)) = Normal r"
  then have a: "input st \<noteq> []"
    and b: "run (prepareInputForCalculation (input st) (mode st)) = Normal r"
    by simp_all
  show "result (calculate run st) = r" "display (calculate run st) = r"
    "entry_result (hd (history (calculate run st))) = r"
    using calculate_success [of st run r] a b by simp_all
qed

theorem calculation_shows_decimal_text_witness:
  "js_eval (prepareInputForCalculation (input long_fraction_state) (mode long_fraction_state))
     = Value (Finite (493827156049 / 4))
   \<and> result (calculate evaluate long_fraction_state) = js ''123456789012.25''
   \<and> display (calculate evaluate long_fraction_state) = js ''123456789012.25''
   \<and> formatNumber (Num (Finite (493827156049 / 4))) = js ''1.2345678901e+11''"
proof -
  have p: "prepareInputForCalculation (input long_fraction_state) (mode long_fraction_state)
           = js ''123456789012.25''"
    by (simp add: long_fraction_state_def initial_state_def prepareInputForCalculation_def
        js_def pi_unit_def starts_with_def)
  have i: "input long_fraction_state \<noteq> []"
    by (simp add: long_fraction_state_def js_def)
  have e: "evaluate (js ''123456789012.25'') = Normal (js ''123456789012.25'')"
    by (simp only: evaluate_def eval_long_fraction outcome.case decimal_toString_def
        toString_long_fraction)
  have f: "formatNumber (Num (Finite (493827156049 / 4))) = js ''1.2345678901e+11''"
    by (rule format_long_fraction)
  have "result (calculate evaluate long_fraction_state) = js ''123456789012.25''
        \<and> display (calculate evaluate long_fraction_state) = js ''123456789012.25''"
    using calculation_shows_decimal_text
      [of "[]" long_fraction_state evaluate "js ''123456789012.25''"] i p e
    by simp
  then show ?thesis
    using f p eval_long_fraction by simp
qed

end
